theory Spec2Isabelle
  imports Complex_Main "HOL-Library.Sublist"
begin

section \<open>JavaScript numbers\<close>

text \<open>
  The services compute with JavaScript numbers. Embedding components are finite numbers
  (the schema field is \<^verbatim>\<open>embedding: [Number]\<close>), so a vector is a list of reals, and
  the sums, products and square roots of the similarity computation are taken exactly:
  rounding, overflow and underflow of doubles in that computation are outside this
  model. What the model does keep is the part of
  IEEE arithmetic the code can reach without any rounding: a division by zero yields
  \<open>NaN\<close> or an infinity, and every comparison with \<open>NaN\<close> is false.
\<close>

datatype jsnum = Fin real | PInf | NInf | NaN

text \<open>\<^verbatim>\<open>x / y\<close> for finite \<open>x\<close> and a finite, non-negative \<open>y\<close>.\<close>

definition js_div :: "real \<Rightarrow> real \<Rightarrow> jsnum" where
  "js_div x y =
     (if y \<noteq> 0 then Fin (x / y)
      else if x = 0 then NaN
      else if 0 < x then PInf else NInf)"

text \<open>\<^verbatim>\<open>x - y\<close>.\<close>

fun js_sub :: "jsnum \<Rightarrow> jsnum \<Rightarrow> jsnum" where
  "js_sub (Fin x) (Fin y) = Fin (x - y)"
| "js_sub NaN _ = NaN"
| "js_sub _ NaN = NaN"
| "js_sub PInf PInf = NaN"
| "js_sub NInf NInf = NaN"
| "js_sub PInf _ = PInf"
| "js_sub NInf _ = NInf"
| "js_sub (Fin x) PInf = NInf"
| "js_sub (Fin x) NInf = PInf"

text \<open>
  \<^verbatim>\<open>x * y\<close>. The product of two finite numbers is the double nearest to the exact
  product, or an infinity when that is out of range. One decimal of a printed percentage
  can depend on this rounding, so it is not idealised here: it is the parameter \<open>fl\<close>,
  and what is proved of a product holds for every rounding.
\<close>

definition inf_of_sign :: "real \<Rightarrow> jsnum" where
  "inf_of_sign s = (if s = 0 then NaN else if 0 < s then PInf else NInf)"

fun js_mul :: "(real \<Rightarrow> jsnum) \<Rightarrow> jsnum \<Rightarrow> jsnum \<Rightarrow> jsnum" where
  "js_mul fl (Fin x) (Fin y) = fl (x * y)"
| "js_mul fl NaN _ = NaN"
| "js_mul fl _ NaN = NaN"
| "js_mul fl PInf (Fin y) = inf_of_sign y"
| "js_mul fl NInf (Fin y) = inf_of_sign (- y)"
| "js_mul fl (Fin x) PInf = inf_of_sign x"
| "js_mul fl (Fin x) NInf = inf_of_sign (- x)"
| "js_mul fl PInf PInf = PInf"
| "js_mul fl NInf NInf = PInf"
| "js_mul fl PInf NInf = NInf"
| "js_mul fl NInf PInf = NInf"

text \<open>\<^verbatim>\<open>x > y\<close>: false as soon as one side is \<open>NaN\<close>.\<close>

fun js_gt :: "jsnum \<Rightarrow> jsnum \<Rightarrow> bool" where
  "js_gt (Fin x) (Fin y) = (y < x)"
| "js_gt PInf (Fin y) = True"
| "js_gt PInf NInf = True"
| "js_gt (Fin x) NInf = True"
| "js_gt _ _ = False"

text \<open>\<^verbatim>\<open>x >= y\<close>: also false as soon as one side is \<open>NaN\<close>.\<close>

fun js_ge :: "jsnum \<Rightarrow> jsnum \<Rightarrow> bool" where
  "js_ge (Fin x) (Fin y) = (y \<le> x)"
| "js_ge NaN _ = False"
| "js_ge _ NaN = False"
| "js_ge PInf _ = True"
| "js_ge _ NInf = True"
| "js_ge (Fin x) PInf = False"
| "js_ge NInf _ = False"

text \<open>\<^verbatim>\<open>x === y\<close> on numbers: \<open>NaN\<close> is not equal to anything, itself included.\<close>

fun js_eq :: "jsnum \<Rightarrow> jsnum \<Rightarrow> bool" where
  "js_eq NaN _ = False"
| "js_eq _ NaN = False"
| "js_eq x y = (x = y)"

section \<open>Outcomes of the external providers\<close>

text \<open>
  A call to a hosted model either throws (with a message) or returns a value. The
  providers are parameters of the model.
\<close>

datatype 'a outcome = Throws string | Returns 'a

section \<open>Cosine similarity\<close>

text \<open>
  A vector argument is \<open>None\<close> when the JavaScript value is \<^verbatim>\<open>null\<close> or
  \<^verbatim>\<open>undefined\<close> (the only values for which \<^verbatim>\<open>!vec\<close> holds among arrays and
  absent values: an empty array is truthy).

  The loop of both services, started with \<open>(dotProduct, normA, normB) = (0, 0, 0)\<close>; it
  is entered with vectors of the same length only.
\<close>

fun cos_loop :: "real list \<Rightarrow> real list \<Rightarrow> real \<times> real \<times> real \<Rightarrow> real \<times> real \<times> real" where
  "cos_loop (x # xs) (y # ys) (dotProduct, normA, normB) =
     cos_loop xs ys (dotProduct + x * y, normA + x * x, normB + y * y)"
| "cos_loop _ _ acc = acc"

text \<open>\<^verbatim>\<open>AIService.cosineSimilarity\<close>: the denominator is tested before the division.\<close>

definition AI_cosineSimilarity :: "real list option \<Rightarrow> real list option \<Rightarrow> jsnum" where
  "AI_cosineSimilarity vecA vecB =
     (case (vecA, vecB) of
        (Some a, Some b) \<Rightarrow>
          if length a \<noteq> length b then Fin 0
          else
            (case cos_loop a b (0, 0, 0) of
               (dotProduct, normA, normB) \<Rightarrow>
                 let denominator = sqrt normA * sqrt normB
                 in if denominator = 0 then Fin 0 else js_div dotProduct denominator)
      | _ \<Rightarrow> Fin 0)"

text \<open>\<^verbatim>\<open>GCPService.cosineSimilarity\<close>: the same loop, and the division as it stands.\<close>

definition GCP_cosineSimilarity :: "real list option \<Rightarrow> real list option \<Rightarrow> jsnum" where
  "GCP_cosineSimilarity vecA vecB =
     (case (vecA, vecB) of
        (Some a, Some b) \<Rightarrow>
          if length a \<noteq> length b then Fin 0
          else
            (case cos_loop a b (0, 0, 0) of
               (dotProduct, normA, normB) \<Rightarrow> js_div dotProduct (sqrt normA * sqrt normB))
      | _ \<Rightarrow> Fin 0)"

section \<open>Stored bugs and scored matches\<close>

text \<open>
  The fields of the \<^verbatim>\<open>Bug\<close> document that the services read. \<open>embedding\<close> is \<open>None\<close>
  for a document without the field.
\<close>

record Bug =
  title :: string
  description :: string
  solution :: string
  tags :: "string list"
  embedding :: "real list option"

text \<open>The object \<^verbatim>\<open>{ bug, similarity }\<close>.\<close>

record ScoredMatch =
  bug :: Bug
  similarity :: jsnum

section \<open>Array.prototype.sort with a comparator\<close>

text \<open>
  \<^verbatim>\<open>arr.sort(cmp)\<close> is stable, places \<open>a\<close> after \<open>b\<close> when \<open>cmp a b > 0\<close>, and reads a
  \<open>NaN\<close> returned by the comparator as \<open>0\<close>. For a consistent comparator the result is
  determined by these rules, and a stable insertion sort computes it. Where the
  comparator is not consistent (a \<open>NaN\<close> score among three or more elements) the
  language leaves the order to the implementation; the insertion sort is then one
  admissible outcome, and need not be the one of a given engine.
\<close>

fun js_insert :: "('a \<Rightarrow> 'a \<Rightarrow> jsnum) \<Rightarrow> 'a \<Rightarrow> 'a list \<Rightarrow> 'a list" where
  "js_insert cmp a [] = [a]"
| "js_insert cmp a (b # bs) =
     (if js_gt (cmp a b) (Fin 0) then b # js_insert cmp a bs else a # b # bs)"

fun js_sort :: "('a \<Rightarrow> 'a \<Rightarrow> jsnum) \<Rightarrow> 'a list \<Rightarrow> 'a list" where
  "js_sort cmp [] = []"
| "js_sort cmp (a # as) = js_insert cmp a (js_sort cmp as)"

text \<open>The comparator \<^verbatim>\<open>(a, b) => b.similarity - a.similarity\<close>.\<close>

definition by_similarity :: "ScoredMatch \<Rightarrow> ScoredMatch \<Rightarrow> jsnum" where
  "by_similarity a b = js_sub (similarity b) (similarity a)"

section \<open>Embedding of the query\<close>

text \<open>
  \<^verbatim>\<open>AIService.generateEmbedding\<close> returns \<^verbatim>\<open>result.embedding.values\<close>, which may be
  undefined, and the empty array when the call throws.
\<close>

definition AI_generateEmbedding :: "real list option outcome \<Rightarrow> real list option" where
  "AI_generateEmbedding r = (case r of Throws _ \<Rightarrow> Some [] | Returns v \<Rightarrow> v)"

text \<open>
  \<^verbatim>\<open>GCPService.generateEmbedding\<close> returns \<^verbatim>\<open>... .embedding || []\<close>, and the empty array
  when the call throws.
\<close>

definition GCP_generateEmbedding :: "real list option outcome \<Rightarrow> real list option" where
  "GCP_generateEmbedding r =
     (case r of
        Throws _ \<Rightarrow> Some []
      | Returns v \<Rightarrow> (case v of None \<Rightarrow> Some [] | Some e \<Rightarrow> Some e))"

section \<open>Search for similar bugs\<close>

text \<open>The callback of \<^verbatim>\<open>bugEmbeddings.map\<close>, for each service.\<close>

definition AI_score :: "real list option \<Rightarrow> Bug \<Rightarrow> ScoredMatch" where
  "AI_score queryEmbedding b =
     (if embedding b = None \<or> embedding b = Some [] then \<lparr>bug = b, similarity = Fin 0\<rparr>
      else \<lparr>bug = b, similarity = AI_cosineSimilarity queryEmbedding (embedding b)\<rparr>)"

definition GCP_score :: "real list option \<Rightarrow> Bug \<Rightarrow> ScoredMatch" where
  "GCP_score queryEmbedding b =
     (if embedding b = None \<or> embedding b = Some [] then \<lparr>bug = b, similarity = Fin 0\<rparr>
      else \<lparr>bug = b, similarity = GCP_cosineSimilarity queryEmbedding (embedding b)\<rparr>)"

text \<open>
  \<^verbatim>\<open>AIService.searchSimilarBugs\<close>. \<open>provider\<close> is the call to the embedding model. With a list of
  documents for \<open>bugEmbeddings\<close> no statement of the \<^verbatim>\<open>try\<close> block throws, so the
  \<^verbatim>\<open>catch\<close> branch (which returns the empty array as well) is not a case of the model.
\<close>

definition AI_searchSimilarBugs ::
  "(string \<Rightarrow> real list option outcome) \<Rightarrow> string \<Rightarrow> Bug list \<Rightarrow> ScoredMatch list" where
  "AI_searchSimilarBugs provider query bugEmbeddings =
     (let queryEmbedding = AI_generateEmbedding (provider query)
      in if queryEmbedding = None \<or> queryEmbedding = Some [] then []
         else
           let similarities = map (AI_score queryEmbedding) bugEmbeddings
           in filter (\<lambda>item. js_gt (similarity item) (Fin 0.3))
                (take 3 (js_sort by_similarity similarities)))"

text \<open>\<^verbatim>\<open>GCPService.searchSimilarBugs\<close>: no test of the query embedding, no filter.\<close>

definition GCP_searchSimilarBugs ::
  "(string \<Rightarrow> real list option outcome) \<Rightarrow> string \<Rightarrow> Bug list \<Rightarrow> ScoredMatch list" where
  "GCP_searchSimilarBugs provider query bugEmbeddings =
     (let queryEmbedding = GCP_generateEmbedding (provider query);
          similarities = map (GCP_score queryEmbedding) bugEmbeddings
      in take 3 (js_sort by_similarity similarities))"

section \<open>The prompt of generateBugSolution\<close>

text \<open>\<^verbatim>\<open>Array.prototype.join\<close> on an array of strings.\<close>

fun js_join :: "string \<Rightarrow> string list \<Rightarrow> string" where
  "js_join sep [] = []"
| "js_join sep [s] = s"
| "js_join sep (s # t # ts) = s @ sep @ js_join sep (t # ts)"

text \<open>A non-negative integer as a decimal numeral, as template interpolation prints it.\<close>

definition digit_char :: "nat \<Rightarrow> char" where
  "digit_char d = ''0123456789'' ! d"

fun dec :: "nat \<Rightarrow> string" where
  "dec n = (if n < 10 then [digit_char n] else dec (n div 10) @ [digit_char (n mod 10)])"

declare dec.simps [simp del]

text \<open>
  \<^verbatim>\<open>Number.prototype.toFixed(1)\<close>. A value that is not finite prints as its name. A
  finite value prints its sign, then the integer \<open>n\<close> nearest to ten times its magnitude
  (the larger one of two nearest) with a point before the last digit. From \<open>10^21\<close> on
  the method prints the magnitude as \<^verbatim>\<open>Number::toString\<close> does, which depends on the
  binary representation of the double; that printer is the parameter \<open>big\<close>.
\<close>

fun toFixed1 :: "(real \<Rightarrow> string) \<Rightarrow> jsnum \<Rightarrow> string" where
  "toFixed1 big NaN = ''NaN''"
| "toFixed1 big PInf = ''Infinity''"
| "toFixed1 big NInf = ''-Infinity''"
| "toFixed1 big (Fin x) =
     (let s = (if x < 0 then ''-'' else []); y = \<bar>x\<bar>
      in if 10 ^ 21 \<le> y then s @ big y
         else let n = nat \<lfloor>y * 10 + 1 / 2\<rfloor>
              in s @ dec (n div 10) @ ''.'' @ dec (n mod 10))"

text \<open>The template literal of the callback of \<^verbatim>\<open>similarBugs.map\<close> (the same in both services).\<close>

definition context_entry ::
  "(real \<Rightarrow> string) \<Rightarrow> (real \<Rightarrow> jsnum) \<Rightarrow> nat \<Rightarrow> ScoredMatch \<Rightarrow> string" where
  "context_entry big fl idx item =
     ''Bug '' @ dec (idx + 1) @ '' (Similarity: ''
       @ toFixed1 big (js_mul fl (similarity item) (Fin 100)) @ ''%):\<newline>''
     @ ''Title: '' @ title (bug item) @ ''\<newline>''
     @ ''Description: '' @ description (bug item) @ ''\<newline>''
     @ ''Solution: '' @ solution (bug item) @ ''\<newline>''
     @ ''Tags: '' @ js_join '', '' (tags (bug item)) @ ''\<newline>''
     @ ''---''"

definition context_entries ::
  "(real \<Rightarrow> string) \<Rightarrow> (real \<Rightarrow> jsnum) \<Rightarrow> ScoredMatch list \<Rightarrow> string list" where
  "context_entries big fl similarBugs =
     map (\<lambda>(idx, item). context_entry big fl idx item) (enumerate 0 similarBugs)"

text \<open>The constant \<^verbatim>\<open>context\<close>: the entries joined by an empty line.\<close>

definition similarBugs_context ::
  "(real \<Rightarrow> string) \<Rightarrow> (real \<Rightarrow> jsnum) \<Rightarrow> ScoredMatch list \<Rightarrow> string" where
  "similarBugs_context big fl similarBugs =
     js_join ''\<newline>\<newline>'' (context_entries big fl similarBugs)"

text \<open>The prompt of \<^verbatim>\<open>AIService.generateBugSolution\<close>.\<close>

definition AI_prompt ::
  "(real \<Rightarrow> string) \<Rightarrow> (real \<Rightarrow> jsnum) \<Rightarrow> string \<Rightarrow> ScoredMatch list \<Rightarrow> string" where
  "AI_prompt big fl query similarBugs =
     ''Based on these similar bugs I've solved before, help me with this new issue:\<newline>''
     @ ''\<newline>''
     @ ''QUERY: '' @ query @ ''\<newline>''
     @ ''\<newline>''
     @ ''SIMILAR PAST SOLUTIONS:\<newline>''
     @ similarBugs_context big fl similarBugs @ ''\<newline>''
     @ ''\<newline>''
     @ ''Please provide:\<newline>''
     @ ''1. A short and effective suggested solution based on the similar bugs\<newline>''
     @ ''2. Key steps to resolve the issue\<newline>''
     @ ''\<newline>''
     @ ''Format your response clearly with sections.''"

text \<open>The prompt of \<^verbatim>\<open>GCPService.generateBugSolution\<close>.\<close>

definition GCP_prompt ::
  "(real \<Rightarrow> string) \<Rightarrow> (real \<Rightarrow> jsnum) \<Rightarrow> string \<Rightarrow> ScoredMatch list \<Rightarrow> string" where
  "GCP_prompt big fl query similarBugs =
     ''Based on these similar bugs I've solved before, help me with this new issue:\<newline>''
     @ ''\<newline>''
     @ ''QUERY: '' @ query @ ''\<newline>''
     @ ''\<newline>''
     @ ''SIMILAR PAST SOLUTIONS:\<newline>''
     @ similarBugs_context big fl similarBugs @ ''\<newline>''
     @ ''\<newline>''
     @ ''Please provide:\<newline>''
     @ ''1. A suggested solution based on the similar bugs\<newline>''
     @ ''2. Key steps to resolve the issue\<newline>''
     @ ''3. Any relevant warnings or best practices\<newline>''
     @ ''\<newline>''
     @ ''Format your response clearly with sections.''"

text \<open>
  \<^verbatim>\<open>generateBugSolution\<close>: the text model is called with the prompt; when the call
  throws, the method throws an error with the prefixed message (\<open>Inl\<close>).
\<close>

definition AI_generateBugSolution ::
  "(string \<Rightarrow> string outcome) \<Rightarrow> (real \<Rightarrow> string) \<Rightarrow> (real \<Rightarrow> jsnum) \<Rightarrow> string
     \<Rightarrow> ScoredMatch list
     \<Rightarrow> string + string" where
  "AI_generateBugSolution generateContent big fl query similarBugs =
     (case generateContent (AI_prompt big fl query similarBugs) of
        Throws message \<Rightarrow> Inl (''Solution generation failed: '' @ message)
      | Returns text \<Rightarrow> Inr text)"

definition GCP_generateBugSolution ::
  "(string \<Rightarrow> string outcome) \<Rightarrow> (real \<Rightarrow> string) \<Rightarrow> (real \<Rightarrow> jsnum) \<Rightarrow> string
     \<Rightarrow> ScoredMatch list
     \<Rightarrow> string + string" where
  "GCP_generateBugSolution generateContent big fl query similarBugs =
     (case generateContent (GCP_prompt big fl query similarBugs) of
        Throws message \<Rightarrow> Inl (''Solution generation failed: '' @ message)
      | Returns text \<Rightarrow> Inr text)"

section \<open>Notions used to state the properties\<close>

text \<open>The dot product and the squared Euclidean norm of vectors.\<close>

definition dot :: "real list \<Rightarrow> real list \<Rightarrow> real" where
  "dot a b = (\<Sum>(x, y)\<leftarrow>zip a b. x * y)"

definition sumsq :: "real list \<Rightarrow> real" where
  "sumsq a = (\<Sum>x\<leftarrow>a. x * x)"

text \<open>A score in the closed range from \<open>-1\<close> to \<open>1\<close>, tested as JavaScript would.\<close>

definition in_unit_range :: "jsnum \<Rightarrow> bool" where
  "in_unit_range s = (js_ge s (Fin (- 1)) \<and> js_ge (Fin 1) s)"

text \<open>Matches in non-increasing order of similarity, each compared with \<^verbatim>\<open>>=\<close>.\<close>

definition non_increasing :: "ScoredMatch list \<Rightarrow> bool" where
  "non_increasing ms = sorted_wrt (\<lambda>a b. js_ge (similarity a) (similarity b)) ms"

text \<open>The matches of a list that carry the score \<open>v\<close>, in the order of the list.\<close>

definition with_score :: "jsnum \<Rightarrow> ScoredMatch list \<Rightarrow> ScoredMatch list" where
  "with_score v ms = filter (\<lambda>m. similarity m = v) ms"

text \<open>Every score of the list is a finite number.\<close>

definition finite_scores :: "ScoredMatch list \<Rightarrow> bool" where
  "finite_scores ms = (\<forall>m\<in>set ms. \<exists>r. similarity m = Fin r)"

section \<open>Sample data\<close>

text \<open>A stored bug with the given title and embedding.\<close>

definition sample_bug :: "string \<Rightarrow> real list \<Rightarrow> Bug" where
  "sample_bug name e =
     \<lparr>title = name, description = ''d'', solution = ''s'', tags = [], embedding = Some e\<rparr>"

text \<open>
  The scenario of five candidates: the query embeds to the first unit vector, and the
  five stored embeddings have norm \<open>20\<close> and first components \<open>18\<close>, \<open>16\<close>, \<open>7\<close>, \<open>4\<close>
  and \<open>2\<close>, so that their scores are \<open>0.9\<close>, \<open>0.8\<close>, \<open>0.35\<close>, \<open>0.2\<close> and \<open>0.1\<close>.
\<close>

definition scenario_provider :: "string \<Rightarrow> real list option outcome" where
  "scenario_provider text = Returns (Some [1, 0, 0, 0, 0])"

definition scenario_bugs :: "Bug list" where
  "scenario_bugs =
     [sample_bug ''A'' [18, 6, 6, 2, 0], sample_bug ''B'' [16, 12, 0, 0, 0],
      sample_bug ''C'' [7, 18, 5, 1, 1], sample_bug ''D'' [4, 16, 8, 8, 0],
      sample_bug ''E'' [2, 18, 6, 6, 0]]"

text \<open>Two ranked matches, as the search would hand them to \<^verbatim>\<open>generateBugSolution\<close>.\<close>

definition sample_matches :: "ScoredMatch list" where
  "sample_matches =
     [\<lparr>bug = \<lparr>title = ''Login crash'', description = ''NPE on login'', solution = ''Check null'',
              tags = [''auth'', ''api''], embedding = Some [1, 0]\<rparr>, similarity = Fin 0.9\<rparr>,
      \<lparr>bug = sample_bug ''Timeout'' [0, 1], similarity = Fin 0.35\<rparr>]"

section \<open>The loop computes the dot product and the squared norms\<close>

lemma cos_loop_sums:
  "length a = length b \<Longrightarrow>
   cos_loop a b (d, na, nb) =
     (d + (\<Sum>(x, y)\<leftarrow>zip a b. x * y), na + (\<Sum>x\<leftarrow>a. x * x), nb + (\<Sum>y\<leftarrow>b. y * y))"
  by (induction a b arbitrary: d na nb rule: list_induct2) (simp_all add: algebra_simps)

lemma cos_loop_start:
  "length a = length b \<Longrightarrow> cos_loop a b (0, 0, 0) = (dot a b, sumsq a, sumsq b)"
  by (simp add: cos_loop_sums dot_def sumsq_def)

lemma sumsq_nonneg: "0 \<le> sumsq a"
  unfolding sumsq_def by (induction a) simp_all

lemma sumsq_zero_iff: "sumsq a = 0 \<longleftrightarrow> (\<forall>x\<in>set a. x = 0)"
proof (induction a)
  case Nil
  show ?case by (simp add: sumsq_def)
next
  case (Cons x a)
  have "x * x + sumsq a = 0 \<longleftrightarrow> x * x = 0 \<and> sumsq a = 0"
    using sumsq_nonneg [of a] by (intro add_nonneg_eq_0_iff) simp_all
  moreover have "sumsq (x # a) = x * x + sumsq a"
    by (simp add: sumsq_def)
  ultimately show ?case using Cons by simp
qed

lemma dot_commute: "length a = length b \<Longrightarrow> dot a b = dot b a"
  unfolding dot_def by (induction a b rule: list_induct2) (simp_all add: mult.commute)

lemma dot_zero_left: "length a = length b \<Longrightarrow> \<forall>x\<in>set a. x = 0 \<Longrightarrow> dot a b = 0"
  unfolding dot_def by (induction a b rule: list_induct2) simp_all

lemma dot_zero:
  assumes "length a = length b" "sumsq a = 0 \<or> sumsq b = 0"
  shows "dot a b = 0"
  using assms dot_zero_left [of a b] dot_zero_left [of b a] dot_commute [of a b]
  by (auto simp: sumsq_zero_iff)

text \<open>The Cauchy-Schwarz inequality for lists, by induction along both vectors.\<close>

lemma dot_square_le:
  "length a = length b \<Longrightarrow> (dot a b)\<^sup>2 \<le> sumsq a * sumsq b"
proof (induction a b rule: list_induct2)
  case Nil
  show ?case by (simp add: dot_def sumsq_def)
next
  case (Cons x a y b)
  define D where "D = dot a b"
  define A where "A = sumsq a"
  define B where "B = sumsq b"
  have step: "dot (x # a) (y # b) = x * y + D" "sumsq (x # a) = x * x + A"
    "sumsq (y # b) = y * y + B"
    by (simp_all add: dot_def sumsq_def D_def A_def B_def)
  have IH: "D\<^sup>2 \<le> A * B"
    using Cons.IH by (simp add: D_def A_def B_def)
  have A0: "0 \<le> A" and B0: "0 \<le> B"
    by (simp_all add: A_def B_def sumsq_nonneg)
  have "(2 * (x * y) * D)\<^sup>2 = 4 * (x * y)\<^sup>2 * D\<^sup>2"
    by (simp add: power2_eq_square)
  also have "\<dots> \<le> 4 * (x * y)\<^sup>2 * (A * B)"
    using IH by (intro mult_left_mono) simp_all
  also have "\<dots> \<le> (x * x * B + A * (y * y))\<^sup>2"
  proof -
    have "0 \<le> (x * x * B - A * (y * y))\<^sup>2" by simp
    then show ?thesis by (simp add: power2_eq_square algebra_simps)
  qed
  finally have "(2 * (x * y) * D)\<^sup>2 \<le> (x * x * B + A * (y * y))\<^sup>2" .
  moreover have "0 \<le> x * x * B + A * (y * y)"
    using A0 B0 by simp
  ultimately have cross: "2 * (x * y) * D \<le> x * x * B + A * (y * y)"
    by (rule power2_le_imp_le)
  have "(x * y + D)\<^sup>2 = (x * y)\<^sup>2 + 2 * (x * y) * D + D\<^sup>2"
    by (simp add: power2_eq_square algebra_simps)
  also have "\<dots> \<le> (x * y)\<^sup>2 + (x * x * B + A * (y * y)) + A * B"
    using cross IH by simp
  also have "\<dots> = (x * x + A) * (y * y + B)"
    by (simp add: power2_eq_square algebra_simps)
  finally show ?case by (simp add: step)
qed

lemma abs_dot_le_norms:
  assumes "length a = length b"
  shows "\<bar>dot a b\<bar> \<le> sqrt (sumsq a) * sqrt (sumsq b)"
proof -
  have "sqrt ((dot a b)\<^sup>2) \<le> sqrt (sumsq a * sumsq b)"
    using dot_square_le [OF assms] by (rule real_sqrt_le_mono)
  then show ?thesis by (simp add: real_sqrt_mult)
qed

lemma quotient_in_range:
  assumes "\<bar>d\<bar> \<le> (n::real)" "n \<noteq> 0"
  shows "- 1 \<le> d / n \<and> d / n \<le> 1"
proof -
  have "0 < n" using assms by linarith
  moreover have "- n \<le> d" "d \<le> n" using assms by linarith+
  ultimately show ?thesis by (simp add: pos_le_divide_eq pos_divide_le_eq)
qed

section \<open>What the two cosineSimilarity methods return\<close>

lemma AI_cosineSimilarity_Some:
  "AI_cosineSimilarity (Some a) (Some b) =
     (if length a \<noteq> length b \<or> sumsq a = 0 \<or> sumsq b = 0 then Fin 0
      else Fin (dot a b / (sqrt (sumsq a) * sqrt (sumsq b))))"
  by (simp add: AI_cosineSimilarity_def cos_loop_start js_div_def)

lemma GCP_cosineSimilarity_Some:
  "GCP_cosineSimilarity (Some a) (Some b) =
     (if length a \<noteq> length b then Fin 0
      else if sumsq a = 0 \<or> sumsq b = 0 then NaN
      else Fin (dot a b / (sqrt (sumsq a) * sqrt (sumsq b))))"
  by (auto simp add: GCP_cosineSimilarity_def cos_loop_start js_div_def dot_zero)

lemma cosineSimilarity_None:
  "AI_cosineSimilarity None b = Fin 0" "AI_cosineSimilarity a None = Fin 0"
  "GCP_cosineSimilarity None b = Fin 0" "GCP_cosineSimilarity a None = Fin 0"
  by (simp_all add: AI_cosineSimilarity_def GCP_cosineSimilarity_def split: option.splits)

text \<open>
  \<^verbatim>\<open>AIService.cosineSimilarity\<close> returns \<open>0\<close> when a vector is absent or empty, when the
  lengths differ, and when a vector of the right length has norm zero.
\<close>

lemma AI_cosineSimilarity_degenerate:
  "a = None \<or> a = Some [] \<or> b = None \<or> b = Some [] \<or> map_option length a \<noteq> map_option length b
   \<Longrightarrow> AI_cosineSimilarity a b = Fin 0"
  by (cases a; cases b) (auto simp add: AI_cosineSimilarity_Some cosineSimilarity_None sumsq_def)

lemma AI_cosineSimilarity_zero_norm:
  "(\<forall>x\<in>set a. x = 0) \<or> (\<forall>y\<in>set b. y = 0) \<Longrightarrow> AI_cosineSimilarity (Some a) (Some b) = Fin 0"
  by (auto simp add: AI_cosineSimilarity_Some sumsq_zero_iff)

text \<open>\<^verbatim>\<open>AIService.cosineSimilarity\<close> always returns a finite score between \<open>-1\<close> and \<open>1\<close>.\<close>

lemma AI_cosineSimilarity_range: "in_unit_range (AI_cosineSimilarity a b)"
proof (cases a; cases b)
  fix x y assume "a = Some x" "b = Some y"
  then show ?thesis
    using quotient_in_range [OF abs_dot_le_norms [of x y]]
    by (simp add: AI_cosineSimilarity_Some in_unit_range_def)
qed (simp_all add: cosineSimilarity_None in_unit_range_def)

lemma AI_cosineSimilarity_finite:
  "\<exists>r. AI_cosineSimilarity a b = Fin r \<and> - 1 \<le> r \<and> r \<le> 1"
  using AI_cosineSimilarity_range [of a b]
  by (cases "AI_cosineSimilarity a b") (simp_all add: in_unit_range_def)

text \<open>
  \<^verbatim>\<open>GCPService.cosineSimilarity\<close> returns \<open>NaN\<close> exactly for vectors of equal length one
  of which has norm zero (two empty vectors included), and agrees with the other
  service everywhere else.
\<close>

lemma GCP_cosineSimilarity_NaN_iff:
  "GCP_cosineSimilarity (Some a) (Some b) = NaN \<longleftrightarrow>
     length a = length b \<and> ((\<forall>x\<in>set a. x = 0) \<or> (\<forall>y\<in>set b. y = 0))"
  by (simp add: GCP_cosineSimilarity_Some sumsq_zero_iff)

lemma GCP_cosineSimilarity_cases:
  "GCP_cosineSimilarity a b = NaN \<or> (\<exists>r. GCP_cosineSimilarity a b = Fin r \<and> - 1 \<le> r \<and> r \<le> 1)"
proof (cases a; cases b)
  fix x y assume "a = Some x" "b = Some y"
  then show ?thesis
    using quotient_in_range [OF abs_dot_le_norms [of x y]]
    by (simp add: GCP_cosineSimilarity_Some)
qed (simp_all add: cosineSimilarity_None)

lemma cosineSimilarity_agree:
  "GCP_cosineSimilarity a b \<noteq> NaN \<Longrightarrow> AI_cosineSimilarity a b = GCP_cosineSimilarity a b"
  by (cases a; cases b)
     (auto simp add: AI_cosineSimilarity_Some GCP_cosineSimilarity_Some cosineSimilarity_None
           split: if_splits)

text \<open>
  Claim C2. A vector of norm zero must give the score \<open>0\<close>, the division being guarded.
  \<^verbatim>\<open>AIService.cosineSimilarity\<close> does so (\<open>AI_cosineSimilarity_zero_norm\<close>).
  \<^verbatim>\<open>GCPService.cosineSimilarity\<close> has no guard: for \<^verbatim>\<open>[0]\<close> and \<^verbatim>\<open>[1]\<close> it divides
  \<open>0\<close> by \<open>0\<close> and returns \<open>NaN\<close>.
\<close>

theorem GCP_cosineSimilarity_zero_norm_unguarded:
  "GCP_cosineSimilarity (Some [0]) (Some [1]) = NaN"
  by (simp add: GCP_cosineSimilarity_def js_div_def)

text \<open>
  Claim C6. Absent or empty vectors, or vectors of different lengths, must give the
  score \<open>0\<close>. \<^verbatim>\<open>AIService.cosineSimilarity\<close> does so (\<open>AI_cosineSimilarity_degenerate\<close>).
  In \<^verbatim>\<open>GCPService.cosineSimilarity\<close> two empty arrays pass the test of the lengths, the
  loop does not run, and the result is \<open>0 / 0\<close>, that is \<open>NaN\<close>.
\<close>

theorem GCP_cosineSimilarity_empty_vectors:
  "GCP_cosineSimilarity (Some []) (Some []) = NaN"
  by (simp add: GCP_cosineSimilarity_def js_div_def)

text \<open>
  Both methods return the same value for the two orders of their arguments. For
  \<^verbatim>\<open>AIService.cosineSimilarity\<close> that value is finite in this model (exact arithmetic),
  so the two results also compare equal with \<^verbatim>\<open>===\<close>.
\<close>

lemma cosineSimilarity_same_value:
  "AI_cosineSimilarity a b = AI_cosineSimilarity b a \<and>
   GCP_cosineSimilarity a b = GCP_cosineSimilarity b a \<and>
   js_eq (AI_cosineSimilarity a b) (AI_cosineSimilarity b a)"
proof -
  have same: "AI_cosineSimilarity a b = AI_cosineSimilarity b a \<and>
      GCP_cosineSimilarity a b = GCP_cosineSimilarity b a"
  proof (cases a; cases b)
    fix x y assume "a = Some x" "b = Some y"
    then show ?thesis
      using dot_commute [of x y]
      by (auto simp add: AI_cosineSimilarity_Some GCP_cosineSimilarity_Some mult.commute)
  qed (simp_all add: cosineSimilarity_None)
  obtain r where r: "AI_cosineSimilarity a b = Fin r"
    using AI_cosineSimilarity_finite [of a b] by blast
  then have "AI_cosineSimilarity b a = Fin r"
    using same by simp
  then have "js_eq (AI_cosineSimilarity a b) (AI_cosineSimilarity b a)"
    by (simp add: r)
  with same show ?thesis by blast
qed

text \<open>
  The two results of \<^verbatim>\<open>GCPService.cosineSimilarity\<close> compare equal with \<^verbatim>\<open>===\<close> exactly
  when the method does not return \<open>NaN\<close>, that is, unless the vectors have the same
  length and one of them has norm zero.
\<close>

lemma GCP_cosineSimilarity_swapped_equal_iff:
  "js_eq (GCP_cosineSimilarity a b) (GCP_cosineSimilarity b a) \<longleftrightarrow>
     GCP_cosineSimilarity a b \<noteq> NaN"
proof -
  have same: "GCP_cosineSimilarity b a = GCP_cosineSimilarity a b"
    using cosineSimilarity_same_value [of a b] by simp
  show ?thesis
    using GCP_cosineSimilarity_cases [of a b] unfolding same by auto
qed

text \<open>
  Claim C7. The score of \<open>(a, b)\<close> must equal the score of \<open>(b, a)\<close>. In
  \<^verbatim>\<open>AIService.cosineSimilarity\<close> it does (\<open>cosineSimilarity_same_value\<close>). For the zero
  vector \<^verbatim>\<open>[0, 0]\<close> and \<^verbatim>\<open>[1, 2]\<close> \<^verbatim>\<open>GCPService.cosineSimilarity\<close> returns \<open>NaN\<close> in
  both orders, and \<open>NaN\<close> is not equal to \<open>NaN\<close>: the comparison of the two results is
  false.
\<close>

theorem GCP_cosineSimilarity_swapped_not_equal:
  "GCP_cosineSimilarity (Some [0, 0]) (Some [1, 2]) = NaN \<and>
   GCP_cosineSimilarity (Some [1, 2]) (Some [0, 0]) = NaN \<and>
   \<not> js_eq (GCP_cosineSimilarity (Some [0, 0]) (Some [1, 2]))
            (GCP_cosineSimilarity (Some [1, 2]) (Some [0, 0]))"
  by (simp add: GCP_cosineSimilarity_def js_div_def)

text \<open>
  Claim C8. The score of two vectors of equal length must lie between \<open>-1\<close> and \<open>1\<close>.
  For \<^verbatim>\<open>AIService.cosineSimilarity\<close> it does (\<open>AI_cosineSimilarity_range\<close>). The score
  that \<^verbatim>\<open>GCPService.cosineSimilarity\<close> returns for two zero vectors of length two is
  \<open>NaN\<close>, which is not in that range.
\<close>

theorem GCP_cosineSimilarity_out_of_range:
  "\<not> in_unit_range (GCP_cosineSimilarity (Some [0, 0]) (Some [0, 0]))"
  by (simp add: GCP_cosineSimilarity_def js_div_def in_unit_range_def)

text \<open>
  Claim C10. The two methods must return the same result on every pair of vectors.
  They differ on the zero vector \<^verbatim>\<open>[0, 0]\<close> and \<^verbatim>\<open>[3, 4]\<close>: one returns \<open>0\<close>, the
  other \<open>NaN\<close>. They agree wherever the second one does not return \<open>NaN\<close>
  (\<open>cosineSimilarity_agree\<close>).
\<close>

theorem cosineSimilarity_variants_differ:
  "AI_cosineSimilarity (Some [0, 0]) (Some [3, 4]) = Fin 0 \<and>
   GCP_cosineSimilarity (Some [0, 0]) (Some [3, 4]) = NaN"
  by (simp add: AI_cosineSimilarity_def GCP_cosineSimilarity_def js_div_def)

section \<open>The sort\<close>

lemma set_js_insert: "set (js_insert cmp a bs) = insert a (set bs)"
  by (induction bs) auto

lemma set_js_sort: "set (js_sort cmp xs) = set xs"
  by (induction xs) (simp_all add: set_js_insert)

lemma length_js_insert: "length (js_insert cmp a bs) = Suc (length bs)"
  by (induction bs) simp_all

lemma length_js_sort: "length (js_sort cmp xs) = length xs"
  by (induction xs) (simp_all add: length_js_insert)

text \<open>
  Stability: an inserted element never passes an element that the comparator ranks
  equal to it, so the elements with a property that equal elements share keep their
  order.
\<close>

lemma filter_js_insert:
  assumes "\<And>b. P a \<Longrightarrow> js_gt (cmp a b) (Fin 0) \<Longrightarrow> \<not> P b"
  shows "filter P (js_insert cmp a bs) = (if P a then a # filter P bs else filter P bs)"
  using assms by (induction bs) auto

lemma same_score_not_after:
  "similarity a = similarity b \<Longrightarrow> \<not> js_gt (by_similarity a b) (Fin 0)"
  by (cases "similarity b") (simp_all add: by_similarity_def)

lemma with_score_js_sort:
  "with_score v (js_sort by_similarity ms) = with_score v ms"
  unfolding with_score_def
proof (induction ms)
  case Nil
  show ?case by simp
next
  case (Cons m ms)
  have "filter (\<lambda>m. similarity m = v) (js_insert by_similarity m (js_sort by_similarity ms)) =
        (if similarity m = v then m # filter (\<lambda>m. similarity m = v) (js_sort by_similarity ms)
         else filter (\<lambda>m. similarity m = v) (js_sort by_similarity ms))"
    by (rule filter_js_insert) (use same_score_not_after in auto)
  with Cons show ?case by simp
qed

text \<open>Order: with finite scores the sorted list is in non-increasing order.\<close>

lemma non_increasing_js_insert:
  assumes "non_increasing bs" "finite_scores (a # bs)"
  shows "non_increasing (js_insert by_similarity a bs)"
  using assms
proof (induction bs)
  case Nil
  show ?case by (simp add: non_increasing_def)
next
  case (Cons b bs)
  obtain x y where xy: "similarity a = Fin x" "similarity b = Fin y"
    using Cons.prems(2) by (auto simp: finite_scores_def)
  show ?case
  proof (cases "js_gt (by_similarity a b) (Fin 0)")
    case True
    have tl: "non_increasing (js_insert by_similarity a bs)"
      using Cons by (auto simp: non_increasing_def finite_scores_def)
    have "js_ge (similarity b) (similarity a)"
      using True xy by (simp add: by_similarity_def)
    then show ?thesis
      using True tl Cons.prems(1) by (auto simp: non_increasing_def set_js_insert)
  next
    case False
    then have ab: "js_ge (similarity a) (similarity b)"
      using xy by (simp add: by_similarity_def)
    have "js_ge (similarity a) (similarity c)" if "c \<in> set bs" for c
    proof -
      have "\<exists>z. similarity c = Fin z"
        using that Cons.prems(2) by (simp add: finite_scores_def)
      then obtain z where "similarity c = Fin z" ..
      moreover have "js_ge (similarity b) (similarity c)"
        using that Cons.prems(1) by (simp add: non_increasing_def)
      ultimately show ?thesis using ab xy by simp
    qed
    then show ?thesis
      using False ab Cons.prems(1) by (auto simp: non_increasing_def)
  qed
qed

lemma non_increasing_js_sort:
  "finite_scores ms \<Longrightarrow> non_increasing (js_sort by_similarity ms)"
proof (induction ms)
  case Nil
  show ?case by (simp add: non_increasing_def)
next
  case (Cons m ms)
  then have "non_increasing (js_sort by_similarity ms)"
    by (simp add: finite_scores_def)
  moreover have "finite_scores (m # js_sort by_similarity ms)"
    using Cons.prems by (simp add: finite_scores_def set_js_sort)
  ultimately show ?case by (simp add: non_increasing_js_insert)
qed

lemma non_increasing_take: "non_increasing ms \<Longrightarrow> non_increasing (take n ms)"
  by (simp add: non_increasing_def)

lemma non_increasing_filter: "non_increasing ms \<Longrightarrow> non_increasing (filter P ms)"
  by (simp add: non_increasing_def sorted_wrt_filter)

lemma with_score_take_prefix: "prefix (with_score v (take n ms)) (with_score v ms)"
  unfolding with_score_def by (intro filter_mono_prefix take_is_prefix)

lemma with_score_threshold:
  "with_score v (filter (\<lambda>m. js_gt (similarity m) t) ms) =
     (if js_gt v t then with_score v ms else [])"
  unfolding with_score_def by (induction ms) auto

section \<open>The scores attached to the candidates\<close>

lemma AI_score_finite: "\<exists>r. similarity (AI_score q b) = Fin r \<and> - 1 \<le> r \<and> r \<le> 1"
  using AI_cosineSimilarity_finite [of q "embedding b"] by (simp add: AI_score_def)

lemma finite_scores_AI: "finite_scores (map (AI_score q) bugs)"
  using AI_score_finite [of q] by (fastforce simp: finite_scores_def)

lemma GCP_score_cases:
  "similarity (GCP_score q b) = NaN \<or>
   (\<exists>r. similarity (GCP_score q b) = Fin r \<and> - 1 \<le> r \<and> r \<le> 1)"
  using GCP_cosineSimilarity_cases [of q "embedding b"] by (simp add: GCP_score_def)

lemma finite_scores_GCP:
  assumes "\<forall>b\<in>set bugs. similarity (GCP_score q b) \<noteq> NaN"
  shows "finite_scores (map (GCP_score q) bugs)"
  using assms GCP_score_cases [of q] by (fastforce simp: finite_scores_def)

section \<open>The result of the search\<close>

text \<open>
  \<^verbatim>\<open>AIService.searchSimilarBugs\<close> returns at most three matches, in non-increasing order
  of similarity, and for each score the returned matches with that score are the first
  candidates with that score, in the order of the candidates.
\<close>

lemma AI_searchSimilarBugs_ranked:
  fixes provider query bugs
  defines "found \<equiv> AI_searchSimilarBugs provider query bugs"
  shows "length found \<le> 3"
    and "non_increasing found"
    and "prefix (with_score v found)
           (with_score v (map (AI_score (AI_generateEmbedding (provider query))) bugs))"
proof -
  let ?q = "AI_generateEmbedding (provider query)"
  let ?S = "js_sort by_similarity (map (AI_score ?q) bugs)"
  have found: "found = [] \<or> found = filter (\<lambda>item. js_gt (similarity item) (Fin 0.3)) (take 3 ?S)"
    by (simp add: found_def AI_searchSimilarBugs_def Let_def)
  have "length (filter (\<lambda>item. js_gt (similarity item) (Fin 0.3)) (take 3 ?S)) \<le> length (take 3 ?S)"
    by (rule length_filter_le)
  then show "length found \<le> 3" using found by auto
  have "non_increasing ?S"
    by (rule non_increasing_js_sort) (rule finite_scores_AI)
  then show "non_increasing found"
    using found by (auto simp: non_increasing_take non_increasing_filter) (simp add: non_increasing_def)
  have "prefix (with_score v (take 3 ?S)) (with_score v (map (AI_score ?q) bugs))"
    using with_score_take_prefix [of v 3 ?S] by (simp add: with_score_js_sort)
  then show "prefix (with_score v found) (with_score v (map (AI_score ?q) bugs))"
    using found by (auto simp: with_score_threshold) (simp add: with_score_def)
qed

text \<open>
  \<^verbatim>\<open>GCPService.searchSimilarBugs\<close> does the same as long as no candidate is scored
  \<open>NaN\<close>.
\<close>

lemma GCP_searchSimilarBugs_ranked:
  fixes provider query bugs
  defines "found \<equiv> GCP_searchSimilarBugs provider query bugs"
  assumes "\<forall>b\<in>set bugs. similarity (GCP_score (GCP_generateEmbedding (provider query)) b) \<noteq> NaN"
  shows "length found \<le> 3"
    and "non_increasing found"
    and "prefix (with_score v found)
           (with_score v (map (GCP_score (GCP_generateEmbedding (provider query))) bugs))"
proof -
  let ?q = "GCP_generateEmbedding (provider query)"
  let ?S = "js_sort by_similarity (map (GCP_score ?q) bugs)"
  have found: "found = take 3 ?S"
    by (simp add: found_def GCP_searchSimilarBugs_def Let_def)
  show "length found \<le> 3" using found by simp
  have "non_increasing ?S"
    by (rule non_increasing_js_sort) (rule finite_scores_GCP [OF assms(2)])
  then show "non_increasing found"
    using found by (simp add: non_increasing_take)
  show "prefix (with_score v found) (with_score v (map (GCP_score ?q) bugs))"
    using with_score_take_prefix [of v 3 ?S] found by (simp add: with_score_js_sort)
qed

text \<open>
  Claim C1. The search must return at most three matches in non-increasing order of
  similarity, stable under ties. \<^verbatim>\<open>AIService.searchSimilarBugs\<close> does
  (\<open>AI_searchSimilarBugs_ranked\<close>). In \<^verbatim>\<open>GCPService.searchSimilarBugs\<close> a stored
  zero vector is scored \<open>NaN\<close>, the comparator returns \<open>NaN\<close> for it, the sort takes
  that for a tie, and so the match scored \<open>NaN\<close> stays before the match scored \<open>1\<close>.
\<close>

theorem GCP_searchSimilarBugs_NaN_first:
  "map similarity (GCP_searchSimilarBugs (\<lambda>text. Returns (Some [1])) ''crash''
      [sample_bug ''A'' [0], sample_bug ''B'' [1]]) = [NaN, Fin 1] \<and>
   \<not> non_increasing (GCP_searchSimilarBugs (\<lambda>text. Returns (Some [1])) ''crash''
      [sample_bug ''A'' [0], sample_bug ''B'' [1]])"
  by (simp add: GCP_searchSimilarBugs_def GCP_generateEmbedding_def GCP_score_def
        GCP_cosineSimilarity_def js_div_def sample_bug_def by_similarity_def non_increasing_def)

text \<open>
  \<^verbatim>\<open>AIService.searchSimilarBugs\<close> returns the empty list when the provider throws or
  returns no vector or an empty one.
\<close>

lemma AI_searchSimilarBugs_provider_fails:
  "provider query = Throws e \<or> provider query = Returns None \<or> provider query = Returns (Some [])
   \<Longrightarrow> AI_searchSimilarBugs provider query bugs = []"
  by (auto simp add: AI_searchSimilarBugs_def AI_generateEmbedding_def)

text \<open>
  Claim C3. When the provider fails or returns an empty vector the search must return
  the empty list. \<^verbatim>\<open>AIService.searchSimilarBugs\<close> does
  (\<open>AI_searchSimilarBugs_provider_fails\<close>). \<^verbatim>\<open>GCPService.searchSimilarBugs\<close> does not
  test the query embedding: when the provider throws, every candidate is scored \<open>0\<close>
  and the first three candidates are returned.
\<close>

theorem GCP_searchSimilarBugs_provider_fails:
  "GCP_searchSimilarBugs (\<lambda>text. Throws ''unavailable'') ''crash'' [sample_bug ''B'' [1]] =
     [\<lparr>bug = sample_bug ''B'' [1], similarity = Fin 0\<rparr>]"
  by (simp add: GCP_searchSimilarBugs_def GCP_generateEmbedding_def GCP_score_def
        GCP_cosineSimilarity_def sample_bug_def)

text \<open>
  Claim C4. Every match that \<^verbatim>\<open>AIService.searchSimilarBugs\<close> returns has a finite
  similarity strictly greater than \<open>0.3\<close>.
\<close>

theorem AI_searchSimilarBugs_above_threshold:
  "\<forall>m\<in>set (AI_searchSimilarBugs provider query bugs). \<exists>r. similarity m = Fin r \<and> 0.3 < r"
proof
  fix m assume m: "m \<in> set (AI_searchSimilarBugs provider query bugs)"
  let ?q = "AI_generateEmbedding (provider query)"
  from m have gt: "js_gt (similarity m) (Fin 0.3)"
    and "m \<in> set (js_sort by_similarity (map (AI_score ?q) bugs))"
    by (auto simp add: AI_searchSimilarBugs_def Let_def split: if_splits dest: in_set_takeD)
  then have "m \<in> set (map (AI_score ?q) bugs)"
    by (simp only: set_js_sort)
  then obtain r where "similarity m = Fin r"
    using AI_score_finite [of ?q] by auto
  with gt show "\<exists>r. similarity m = Fin r \<and> 0.3 < r" by simp
qed

lemma sqrt_400: "sqrt 400 = 20"
  by (rule real_sqrt_unique) simp_all

theorem AI_searchSimilarBugs_above_threshold_witness:
  "AI_searchSimilarBugs scenario_provider ''crash'' scenario_bugs \<noteq> [] \<and>
   (\<exists>r. similarity (hd (AI_searchSimilarBugs scenario_provider ''crash'' scenario_bugs)) = Fin r
        \<and> 0.3 < r)"
proof -
  have "AI_searchSimilarBugs scenario_provider ''crash'' scenario_bugs \<noteq> []"
    by (simp add: AI_searchSimilarBugs_def AI_generateEmbedding_def scenario_provider_def
        scenario_bugs_def sample_bug_def AI_score_def AI_cosineSimilarity_def js_div_def sqrt_400
        by_similarity_def)
  then show ?thesis
    using AI_searchSimilarBugs_above_threshold [of scenario_provider "''crash''" scenario_bugs]
    by simp
qed

section \<open>The scenario of five candidates\<close>

lemma scenario_scores_GCP:
  "map similarity (map (GCP_score (Some [1, 0, 0, 0, 0])) scenario_bugs) =
     [Fin 0.9, Fin 0.8, Fin 0.35, Fin 0.2, Fin 0.1]"
  by (simp add: scenario_bugs_def sample_bug_def GCP_score_def GCP_cosineSimilarity_def
        js_div_def sqrt_400)

lemma scenario_scores_AI:
  "map similarity (map (AI_score (Some [1, 0, 0, 0, 0])) scenario_bugs) =
     [Fin 0.9, Fin 0.8, Fin 0.35, Fin 0.2, Fin 0.1]"
  by (simp add: scenario_bugs_def sample_bug_def AI_score_def AI_cosineSimilarity_def
        js_div_def sqrt_400)

lemma five_scores:
  assumes "map similarity ms = [a, b, c, d, e]"
  obtains m1 m2 m3 m4 m5 where "ms = [m1, m2, m3, m4, m5]"
    "similarity m1 = a" "similarity m2 = b" "similarity m3 = c" "similarity m4 = d"
    "similarity m5 = e"
  using assms by (auto simp: map_eq_Cons_conv)

text \<open>
  Claim C5, as stated: with five candidates scored \<open>0.9\<close>, \<open>0.8\<close>, \<open>0.35\<close>, \<open>0.2\<close> and
  \<open>0.1\<close> the search with the threshold returns exactly the first two. It does not:
  \<open>0.35\<close> is greater than \<open>0.3\<close>, so \<^verbatim>\<open>AIService.searchSimilarBugs\<close> returns the
  first three.
\<close>

theorem AI_searchSimilarBugs_scenario_counterexample:
  "map similarity
     (map (AI_score (AI_generateEmbedding (scenario_provider ''crash''))) scenario_bugs) =
     [Fin 0.9, Fin 0.8, Fin 0.35, Fin 0.2, Fin 0.1] \<and>
   map similarity (AI_searchSimilarBugs scenario_provider ''crash'' scenario_bugs) =
     [Fin 0.9, Fin 0.8, Fin 0.35] \<and>
   AI_searchSimilarBugs scenario_provider ''crash'' scenario_bugs \<noteq>
     take 2 (map (AI_score (AI_generateEmbedding (scenario_provider ''crash''))) scenario_bugs)"
  by (simp add: AI_searchSimilarBugs_def AI_generateEmbedding_def scenario_provider_def
        scenario_bugs_def sample_bug_def AI_score_def AI_cosineSimilarity_def js_div_def sqrt_400
        by_similarity_def)

text \<open>
  Claim C5, amended: with five candidates scored \<open>0.9\<close>, \<open>0.8\<close>, \<open>0.35\<close>, \<open>0.2\<close> and
  \<open>0.1\<close>, in that order, both services return exactly the first three candidates, in
  that order: without the threshold because the list is cut to three, with the threshold
  because all three scores are above \<open>0.3\<close>.
\<close>

theorem searchSimilarBugs_scenario:
  "(map similarity (map (GCP_score (GCP_generateEmbedding (provider query))) bugs) =
      [Fin 0.9, Fin 0.8, Fin 0.35, Fin 0.2, Fin 0.1] \<longrightarrow>
    GCP_searchSimilarBugs provider query bugs =
      take 3 (map (GCP_score (GCP_generateEmbedding (provider query))) bugs)) \<and>
   (map similarity (map (AI_score (AI_generateEmbedding (provider query))) bugs) =
      [Fin 0.9, Fin 0.8, Fin 0.35, Fin 0.2, Fin 0.1] \<longrightarrow>
    AI_searchSimilarBugs provider query bugs =
      take 3 (map (AI_score (AI_generateEmbedding (provider query))) bugs))"
proof (intro conjI impI)
  let ?q = "GCP_generateEmbedding (provider query)"
  assume "map similarity (map (GCP_score ?q) bugs) = [Fin 0.9, Fin 0.8, Fin 0.35, Fin 0.2, Fin 0.1]"
  then obtain m1 m2 m3 m4 m5 where ms: "map (GCP_score ?q) bugs = [m1, m2, m3, m4, m5]"
    "similarity m1 = Fin 0.9" "similarity m2 = Fin 0.8" "similarity m3 = Fin 0.35"
    "similarity m4 = Fin 0.2" "similarity m5 = Fin 0.1"
    by (rule five_scores)
  then show "GCP_searchSimilarBugs provider query bugs = take 3 (map (GCP_score ?q) bugs)"
    by (simp add: GCP_searchSimilarBugs_def by_similarity_def)
next
  let ?q = "AI_generateEmbedding (provider query)"
  assume "map similarity (map (AI_score ?q) bugs) = [Fin 0.9, Fin 0.8, Fin 0.35, Fin 0.2, Fin 0.1]"
  then obtain m1 m2 m3 m4 m5 where ms: "map (AI_score ?q) bugs = [m1, m2, m3, m4, m5]"
    "similarity m1 = Fin 0.9" "similarity m2 = Fin 0.8" "similarity m3 = Fin 0.35"
    "similarity m4 = Fin 0.2" "similarity m5 = Fin 0.1"
    by (rule five_scores)
  have "bugs \<noteq> []" using ms(1) by auto
  then obtain b0 bs where bugs: "bugs = b0 # bs" by (cases bugs) auto
  have "similarity (AI_score ?q b0) = Fin 0.9"
    using ms bugs by simp
  moreover have "similarity (AI_score None b0) = Fin 0" "similarity (AI_score (Some []) b0) = Fin 0"
    by (cases "embedding b0"; simp add: AI_score_def AI_cosineSimilarity_def)+
  ultimately have "?q \<noteq> None" "?q \<noteq> Some []"
    by (metis jsnum.inject divide_eq_0_iff zero_neq_numeral)+
  then have "AI_searchSimilarBugs provider query bugs =
      filter (\<lambda>item. js_gt (similarity item) (Fin 0.3))
        (take 3 (js_sort by_similarity (map (AI_score ?q) bugs)))"
    by (auto simp add: AI_searchSimilarBugs_def Let_def)
  then show "AI_searchSimilarBugs provider query bugs = take 3 (map (AI_score ?q) bugs)"
    using ms by (simp add: by_similarity_def)
qed

theorem searchSimilarBugs_scenario_witness:
  "GCP_searchSimilarBugs scenario_provider ''crash'' scenario_bugs =
     take 3 (map (GCP_score (Some [1, 0, 0, 0, 0])) scenario_bugs) \<and>
   AI_searchSimilarBugs scenario_provider ''crash'' scenario_bugs =
     take 3 (map (AI_score (Some [1, 0, 0, 0, 0])) scenario_bugs)"
proof -
  have q: "GCP_generateEmbedding (scenario_provider ''crash'') = Some [1, 0, 0, 0, 0]"
    "AI_generateEmbedding (scenario_provider ''crash'') = Some [1, 0, 0, 0, 0]"
    by (simp_all add: GCP_generateEmbedding_def AI_generateEmbedding_def scenario_provider_def)
  show ?thesis
    using searchSimilarBugs_scenario [of scenario_provider "''crash''" scenario_bugs]
    by (simp only: q scenario_scores_GCP scenario_scores_AI simp_thms)
qed

section \<open>The context block of the prompt\<close>

lemma js_join_Cons: "es \<noteq> [] \<Longrightarrow> js_join sep (e # es) = e @ sep @ js_join sep es"
  by (cases es) simp_all

lemma js_join_append:
  "xs \<noteq> [] \<Longrightarrow> ys \<noteq> [] \<Longrightarrow> js_join sep (xs @ ys) = js_join sep xs @ sep @ js_join sep ys"
proof (induction xs)
  case Nil
  then show ?case by simp
next
  case (Cons x xs)
  show ?case
  proof (cases "xs = []")
    case True
    then show ?thesis using Cons.prems by (simp add: js_join_Cons)
  next
    case False
    then show ?thesis using Cons by (simp add: js_join_Cons)
  qed
qed

lemma js_join_nth: "i < length es \<Longrightarrow> \<exists>p s. js_join sep es = p @ es ! i @ s"
proof (induction es arbitrary: i)
  case Nil
  then show ?case by simp
next
  case (Cons e es)
  show ?case
  proof (cases i)
    case 0
    have "js_join sep (e # es) = [] @ e @ (if es = [] then [] else sep @ js_join sep es)"
      by (simp add: js_join_Cons)
    then show ?thesis using 0 by (metis nth_Cons_0)
  next
    case (Suc k)
    then have "k < length es" using Cons.prems by simp
    then obtain p s where ps: "js_join sep es = p @ es ! k @ s"
      using Cons.IH by blast
    have "es \<noteq> []" using \<open>k < length es\<close> by auto
    then have "js_join sep (e # es) = (e @ sep @ p) @ es ! k @ s"
      using ps by (simp add: js_join_Cons)
    then show ?thesis using Suc by (metis nth_Cons_Suc)
  qed
qed

lemma js_join_hd: "es \<noteq> [] \<Longrightarrow> prefix (es ! 0) (js_join sep es)"
  by (induction sep es rule: js_join.induct) (simp_all add: prefix_def)

lemma js_join_ordered:
  assumes "i < j" "j < length es"
  shows "\<exists>p m s. js_join sep es = p @ es ! i @ m @ es ! j @ s"
proof -
  let ?xs = "take j es" and ?ys = "drop j es"
  have ne: "?xs \<noteq> []" "?ys \<noteq> []" using assms by auto
  have "js_join sep es = js_join sep (?xs @ ?ys)" by simp
  also have "\<dots> = js_join sep ?xs @ sep @ js_join sep ?ys"
    using ne by (rule js_join_append)
  finally have split: "js_join sep es = js_join sep ?xs @ sep @ js_join sep ?ys" .
  have "i < length ?xs" using assms by simp
  then obtain p s1 where "js_join sep ?xs = p @ ?xs ! i @ s1"
    using js_join_nth by blast
  then have left: "js_join sep ?xs = p @ es ! i @ s1"
    using assms by simp
  have "prefix (?ys ! 0) (js_join sep ?ys)"
    using ne(2) by (rule js_join_hd)
  then obtain s2 where "js_join sep ?ys = ?ys ! 0 @ s2"
    by (auto simp: prefix_def)
  then have right: "js_join sep ?ys = es ! j @ s2"
    using assms by simp
  have "js_join sep es = p @ es ! i @ (s1 @ sep) @ es ! j @ s2"
    using split left right by simp
  then show ?thesis by blast
qed

lemma length_context_entries: "length (context_entries big fl ms) = length ms"
  by (simp add: context_entries_def)

lemma nth_context_entries:
  "i < length ms \<Longrightarrow> context_entries big fl ms ! i = context_entry big fl i (ms ! i)"
  by (simp add: context_entries_def nth_enumerate_eq)

lemma sublist_middle: "sublist x (p @ x @ s)"
  by (rule sublist_appendI)

lemma context_entry_contains:
  "sublist (''Bug '' @ dec (i + 1)) (context_entry big fl i m)"
  "sublist (toFixed1 big (js_mul fl (similarity m) (Fin 100)) @ ''%'') (context_entry big fl i m)"
  "sublist (''Title: '' @ title (bug m)) (context_entry big fl i m)"
  "sublist (''Description: '' @ description (bug m)) (context_entry big fl i m)"
  "sublist (''Solution: '' @ solution (bug m)) (context_entry big fl i m)"
  "sublist (''Tags: '' @ js_join '', '' (tags (bug m))) (context_entry big fl i m)"
proof -
  let ?pct = "toFixed1 big (js_mul fl (similarity m) (Fin 100))"
  let ?t = "''Title: '' @ title (bug m)"
  let ?d = "''Description: '' @ description (bug m)"
  let ?s = "''Solution: '' @ solution (bug m)"
  let ?g = "''Tags: '' @ js_join '', '' (tags (bug m))"
  let ?nl = "''\<newline>''"
  have e1: "context_entry big fl i m =
      [] @ (''Bug '' @ dec (i + 1)) @ ('' (Similarity: '' @ ?pct @ ''%):'' @ ?nl @ ?t @ ?nl @ ?d @ ?nl @ ?s @ ?nl @ ?g @ ?nl @ ''---'')"
    by (simp add: context_entry_def)
  show "sublist (''Bug '' @ dec (i + 1)) (context_entry big fl i m)"
    unfolding e1 by (rule sublist_middle)
  have e2: "context_entry big fl i m =
      (''Bug '' @ dec (i + 1) @ '' (Similarity: '') @ (?pct @ ''%'') @ (''):'' @ ?nl @ ?t @ ?nl @ ?d @ ?nl @ ?s @ ?nl @ ?g @ ?nl @ ''---'')"
    by (simp add: context_entry_def)
  show "sublist (?pct @ ''%'') (context_entry big fl i m)"
    unfolding e2 by (rule sublist_middle)
  have e3: "context_entry big fl i m =
      (''Bug '' @ dec (i + 1) @ '' (Similarity: '' @ ?pct @ ''%):'' @ ?nl) @ ?t @ (?nl @ ?d @ ?nl @ ?s @ ?nl @ ?g @ ?nl @ ''---'')"
    by (simp add: context_entry_def)
  show "sublist ?t (context_entry big fl i m)"
    unfolding e3 by (rule sublist_middle)
  have e4: "context_entry big fl i m =
      (''Bug '' @ dec (i + 1) @ '' (Similarity: '' @ ?pct @ ''%):'' @ ?nl @ ?t @ ?nl) @ ?d @ (?nl @ ?s @ ?nl @ ?g @ ?nl @ ''---'')"
    by (simp add: context_entry_def)
  show "sublist ?d (context_entry big fl i m)"
    unfolding e4 by (rule sublist_middle)
  have e5: "context_entry big fl i m =
      (''Bug '' @ dec (i + 1) @ '' (Similarity: '' @ ?pct @ ''%):'' @ ?nl @ ?t @ ?nl @ ?d @ ?nl) @ ?s @ (?nl @ ?g @ ?nl @ ''---'')"
    by (simp add: context_entry_def)
  show "sublist ?s (context_entry big fl i m)"
    unfolding e5 by (rule sublist_middle)
  have e6: "context_entry big fl i m =
      (''Bug '' @ dec (i + 1) @ '' (Similarity: '' @ ?pct @ ''%):'' @ ?nl @ ?t @ ?nl @ ?d @ ?nl @ ?s @ ?nl) @ ?g @ (?nl @ ''---'')"
    by (simp add: context_entry_def)
  show "sublist ?g (context_entry big fl i m)"
    unfolding e6 by (rule sublist_middle)
qed

lemma sublist_skip: "sublist x ys \<Longrightarrow> sublist x (p @ ys)"
  by (metis sublist_append)

lemma sublist_here: "sublist x (x @ s)"
  by (rule sublist_append_rightI)

lemma prompt_contains_context:
  "sublist (similarBugs_context big fl ms) (AI_prompt big fl query ms)"
  "sublist (similarBugs_context big fl ms) (GCP_prompt big fl query ms)"
  unfolding AI_prompt_def GCP_prompt_def
  by (rule sublist_skip, rule sublist_skip, rule sublist_skip, rule sublist_skip,
      rule sublist_skip, rule sublist_skip, rule sublist_skip, rule sublist_here)+

text \<open>The block printed for the two sample matches.\<close>

lemma similarBugs_context_sample:
  "similarBugs_context big Fin sample_matches =
     ''Bug 1 (Similarity: 90.0%):\<newline>Title: Login crash\<newline>Description: NPE on login\<newline>Solution: Check null\<newline>Tags: auth, api\<newline>---\<newline>\<newline>Bug 2 (Similarity: 35.0%):\<newline>Title: Timeout\<newline>Description: d\<newline>Solution: s\<newline>Tags: \<newline>---''"
  by (simp add: similarBugs_context_def context_entries_def context_entry_def sample_matches_def
        sample_bug_def dec.simps digit_char_def)

text \<open>\<^verbatim>\<open>toFixed(1)\<close> on a small negative value, on a tie and on \<open>NaN\<close>.\<close>

lemma toFixed1_samples:
  "toFixed1 big (Fin (- 0.04)) = ''-0.0''"
  "toFixed1 big (Fin 12.25) = ''12.3''"
  "toFixed1 big (js_mul fl NaN (Fin 100)) = ''NaN''"
  by (simp_all add: dec.simps digit_char_def)

lemma context_entries_by_index:
  "context_entries big fl ms = map (\<lambda>i. context_entry big fl i (ms ! i)) [0..<length ms]"
  by (rule nth_equalityI) (simp_all add: length_context_entries nth_context_entries)

lemma AI_prompt_parts:
  "AI_prompt big fl query ms =
     ''Based on these similar bugs I've solved before, help me with this new issue:\<newline>\<newline>QUERY: ''
     @ query @ ''\<newline>\<newline>SIMILAR PAST SOLUTIONS:\<newline>''
     @ similarBugs_context big fl ms
     @ ''\<newline>\<newline>Please provide:\<newline>1. A short and effective suggested solution based on the similar bugs\<newline>2. Key steps to resolve the issue\<newline>\<newline>Format your response clearly with sections.''"
  by (simp add: AI_prompt_def)

lemma GCP_prompt_parts:
  "GCP_prompt big fl query ms =
     ''Based on these similar bugs I've solved before, help me with this new issue:\<newline>\<newline>QUERY: ''
     @ query @ ''\<newline>\<newline>SIMILAR PAST SOLUTIONS:\<newline>''
     @ similarBugs_context big fl ms
     @ ''\<newline>\<newline>Please provide:\<newline>1. A suggested solution based on the similar bugs\<newline>2. Key steps to resolve the issue\<newline>3. Any relevant warnings or best practices\<newline>\<newline>Format your response clearly with sections.''"
  by (simp add: GCP_prompt_def)

text \<open>
  Claim C9. The context block of \<^verbatim>\<open>generateBugSolution\<close> (the same in both services)
  is exactly the entries of the matches, one per match and in the order of the input
  list (the first match first), joined by an empty line. The entry at position \<open>i\<close> is
  the template filled with the match at position \<open>i\<close>: it contains the number \<open>i + 1\<close>,
  the title, the description, the stored solution, the joined tags and the similarity
  as a percentage. Either method calls the text model with a prompt that holds the
  query and then this block, and returns the text of the model, or fails with the
  prefixed message when the model fails.
\<close>

theorem context_lists_matches_in_order:
  "similarBugs_context big fl similarBugs =
     js_join ''\<newline>\<newline>''
       (map (\<lambda>i. context_entry big fl i (similarBugs ! i)) [0..<length similarBugs]) \<and>
   length (context_entries big fl similarBugs) = length similarBugs \<and>
   (\<forall>i<length similarBugs.
      context_entries big fl similarBugs ! i = context_entry big fl i (similarBugs ! i) \<and>
      sublist (''Bug '' @ dec (i + 1)) (context_entries big fl similarBugs ! i) \<and>
      sublist (''Title: '' @ title (bug (similarBugs ! i)))
        (context_entries big fl similarBugs ! i) \<and>
      sublist (''Description: '' @ description (bug (similarBugs ! i)))
        (context_entries big fl similarBugs ! i) \<and>
      sublist (''Solution: '' @ solution (bug (similarBugs ! i)))
        (context_entries big fl similarBugs ! i) \<and>
      sublist (''Tags: '' @ js_join '', '' (tags (bug (similarBugs ! i))))
        (context_entries big fl similarBugs ! i) \<and>
      sublist (toFixed1 big (js_mul fl (similarity (similarBugs ! i)) (Fin 100)) @ ''%'')
        (context_entries big fl similarBugs ! i)) \<and>
   (similarBugs \<noteq> [] \<longrightarrow>
      prefix (context_entries big fl similarBugs ! 0) (similarBugs_context big fl similarBugs)) \<and>
   (\<forall>i j. i < j \<and> j < length similarBugs \<longrightarrow>
      (\<exists>p m s. similarBugs_context big fl similarBugs =
         p @ context_entries big fl similarBugs ! i @ m
           @ context_entries big fl similarBugs ! j @ s)) \<and>
   AI_generateBugSolution generateContent big fl query similarBugs =
     (case generateContent
        (''Based on these similar bugs I've solved before, help me with this new issue:\<newline>\<newline>QUERY: ''
         @ query @ ''\<newline>\<newline>SIMILAR PAST SOLUTIONS:\<newline>''
         @ similarBugs_context big fl similarBugs
         @ ''\<newline>\<newline>Please provide:\<newline>1. A short and effective suggested solution based on the similar bugs\<newline>2. Key steps to resolve the issue\<newline>\<newline>Format your response clearly with sections.'')
      of Throws message \<Rightarrow> Inl (''Solution generation failed: '' @ message)
       | Returns text \<Rightarrow> Inr text) \<and>
   GCP_generateBugSolution generateContent big fl query similarBugs =
     (case generateContent
        (''Based on these similar bugs I've solved before, help me with this new issue:\<newline>\<newline>QUERY: ''
         @ query @ ''\<newline>\<newline>SIMILAR PAST SOLUTIONS:\<newline>''
         @ similarBugs_context big fl similarBugs
         @ ''\<newline>\<newline>Please provide:\<newline>1. A suggested solution based on the similar bugs\<newline>2. Key steps to resolve the issue\<newline>3. Any relevant warnings or best practices\<newline>\<newline>Format your response clearly with sections.'')
      of Throws message \<Rightarrow> Inl (''Solution generation failed: '' @ message)
       | Returns text \<Rightarrow> Inr text)"
proof (intro conjI allI impI)
  show "similarBugs_context big fl similarBugs =
     js_join ''\<newline>\<newline>''
       (map (\<lambda>i. context_entry big fl i (similarBugs ! i)) [0..<length similarBugs])"
    unfolding similarBugs_context_def by (simp only: context_entries_by_index)
next
  show "length (context_entries big fl similarBugs) = length similarBugs"
    by (rule length_context_entries)
next
  fix i assume "i < length similarBugs"
  then show "context_entries big fl similarBugs ! i = context_entry big fl i (similarBugs ! i)"
    by (rule nth_context_entries)
  then show
    "sublist (''Bug '' @ dec (i + 1)) (context_entries big fl similarBugs ! i)"
    "sublist (''Title: '' @ title (bug (similarBugs ! i))) (context_entries big fl similarBugs ! i)"
    "sublist (''Description: '' @ description (bug (similarBugs ! i)))
        (context_entries big fl similarBugs ! i)"
    "sublist (''Solution: '' @ solution (bug (similarBugs ! i)))
        (context_entries big fl similarBugs ! i)"
    "sublist (''Tags: '' @ js_join '', '' (tags (bug (similarBugs ! i))))
        (context_entries big fl similarBugs ! i)"
    "sublist (toFixed1 big (js_mul fl (similarity (similarBugs ! i)) (Fin 100)) @ ''%'')
        (context_entries big fl similarBugs ! i)"
    by (simp_all only: context_entry_contains)
next
  assume "similarBugs \<noteq> []"
  then have "context_entries big fl similarBugs \<noteq> []"
    using length_context_entries [of big fl similarBugs] by auto
  then show "prefix (context_entries big fl similarBugs ! 0) (similarBugs_context big fl similarBugs)"
    unfolding similarBugs_context_def by (rule js_join_hd)
next
  fix i j assume "i < j \<and> j < length similarBugs"
  then have "i < j" "j < length (context_entries big fl similarBugs)"
    by (simp_all add: length_context_entries)
  then show "\<exists>p m s. similarBugs_context big fl similarBugs =
      p @ context_entries big fl similarBugs ! i @ m @ context_entries big fl similarBugs ! j @ s"
    unfolding similarBugs_context_def by (rule js_join_ordered)
next
  show "AI_generateBugSolution generateContent big fl query similarBugs =
     (case generateContent
        (''Based on these similar bugs I've solved before, help me with this new issue:\<newline>\<newline>QUERY: ''
         @ query @ ''\<newline>\<newline>SIMILAR PAST SOLUTIONS:\<newline>''
         @ similarBugs_context big fl similarBugs
         @ ''\<newline>\<newline>Please provide:\<newline>1. A short and effective suggested solution based on the similar bugs\<newline>2. Key steps to resolve the issue\<newline>\<newline>Format your response clearly with sections.'')
      of Throws message \<Rightarrow> Inl (''Solution generation failed: '' @ message)
       | Returns text \<Rightarrow> Inr text)"
    unfolding AI_generateBugSolution_def by (simp only: AI_prompt_parts)
next
  show "GCP_generateBugSolution generateContent big fl query similarBugs =
     (case generateContent
        (''Based on these similar bugs I've solved before, help me with this new issue:\<newline>\<newline>QUERY: ''
         @ query @ ''\<newline>\<newline>SIMILAR PAST SOLUTIONS:\<newline>''
         @ similarBugs_context big fl similarBugs
         @ ''\<newline>\<newline>Please provide:\<newline>1. A suggested solution based on the similar bugs\<newline>2. Key steps to resolve the issue\<newline>3. Any relevant warnings or best practices\<newline>\<newline>Format your response clearly with sections.'')
      of Throws message \<Rightarrow> Inl (''Solution generation failed: '' @ message)
       | Returns text \<Rightarrow> Inr text)"
    unfolding GCP_generateBugSolution_def by (simp only: GCP_prompt_parts)
qed

theorem context_lists_matches_in_order_witness:
  "similarBugs_context (\<lambda>x. []) Fin sample_matches =
     ''Bug 1 (Similarity: 90.0%):\<newline>Title: Login crash\<newline>Description: NPE on login\<newline>Solution: Check null\<newline>Tags: auth, api\<newline>---\<newline>\<newline>Bug 2 (Similarity: 35.0%):\<newline>Title: Timeout\<newline>Description: d\<newline>Solution: s\<newline>Tags: \<newline>---'' \<and>
   sublist ''Title: Login crash'' (context_entries (\<lambda>x. []) Fin sample_matches ! 0) \<and>
   sublist ''90.0%'' (context_entries (\<lambda>x. []) Fin sample_matches ! 0) \<and>
   sublist ''35.0%'' (context_entries (\<lambda>x. []) Fin sample_matches ! 1) \<and>
   (\<exists>p m s. similarBugs_context (\<lambda>x. []) Fin sample_matches =
      p @ context_entries (\<lambda>x. []) Fin sample_matches ! 0 @ m
        @ context_entries (\<lambda>x. []) Fin sample_matches ! 1 @ s)"
proof -
  note inst = context_lists_matches_in_order
    [where big = "\<lambda>x. []" and fl = Fin and similarBugs = sample_matches
       and generateContent = Returns and query = "''crash''"]
  have len: "length sample_matches = 2"
    by (simp add: sample_matches_def)
  have upt: "[0..<length sample_matches] = [0, Suc 0]"
    by (simp add: len upt_rec)
  have entries:
    "context_entry (\<lambda>x. []) Fin 0 (sample_matches ! 0) =
       ''Bug 1 (Similarity: 90.0%):\<newline>Title: Login crash\<newline>Description: NPE on login\<newline>Solution: Check null\<newline>Tags: auth, api\<newline>---''"
    "context_entry (\<lambda>x. []) Fin (Suc 0) (sample_matches ! Suc 0) =
       ''Bug 2 (Similarity: 35.0%):\<newline>Title: Timeout\<newline>Description: d\<newline>Solution: s\<newline>Tags: \<newline>---''"
    by (simp_all add: context_entry_def sample_matches_def sample_bug_def dec.simps digit_char_def)
  have block: "similarBugs_context (\<lambda>x. []) Fin sample_matches =
     ''Bug 1 (Similarity: 90.0%):\<newline>Title: Login crash\<newline>Description: NPE on login\<newline>Solution: Check null\<newline>Tags: auth, api\<newline>---\<newline>\<newline>Bug 2 (Similarity: 35.0%):\<newline>Title: Timeout\<newline>Description: d\<newline>Solution: s\<newline>Tags: \<newline>---''"
    unfolding inst [THEN conjunct1] by (simp add: upt entries)
  have vals: "title (bug (sample_matches ! 0)) = ''Login crash''"
    "toFixed1 (\<lambda>x. []) (js_mul Fin (similarity (sample_matches ! 0)) (Fin 100)) = ''90.0''"
    "toFixed1 (\<lambda>x. []) (js_mul Fin (similarity (sample_matches ! 1)) (Fin 100)) = ''35.0''"
    by (simp_all add: sample_matches_def dec.simps digit_char_def)
  have i0: "0 < length sample_matches" and i1: "1 < length sample_matches"
    using len by simp_all
  note entry = inst [THEN conjunct2, THEN conjunct2, THEN conjunct1, rule_format]
  note order = inst [THEN conjunct2, THEN conjunct2, THEN conjunct2, THEN conjunct2,
    THEN conjunct1, rule_format]
  have t0: "sublist ''Title: Login crash'' (context_entries (\<lambda>x. []) Fin sample_matches ! 0)"
    using entry [OF i0, THEN conjunct2, THEN conjunct2, THEN conjunct1]
    unfolding vals(1) by simp
  have p0: "sublist ''90.0%'' (context_entries (\<lambda>x. []) Fin sample_matches ! 0)"
    using entry [OF i0, THEN conjunct2, THEN conjunct2, THEN conjunct2, THEN conjunct2, THEN conjunct2, THEN conjunct2]
    unfolding vals(2) by simp
  have p1: "sublist ''35.0%'' (context_entries (\<lambda>x. []) Fin sample_matches ! 1)"
    using entry [OF i1, THEN conjunct2, THEN conjunct2, THEN conjunct2, THEN conjunct2, THEN conjunct2, THEN conjunct2]
    unfolding vals(3) by simp
  have "(0::nat) < 1 \<and> 1 < length sample_matches"
    using len by simp
  then have "\<exists>p m s. similarBugs_context (\<lambda>x. []) Fin sample_matches =
      p @ context_entries (\<lambda>x. []) Fin sample_matches ! 0 @ m
        @ context_entries (\<lambda>x. []) Fin sample_matches ! 1 @ s"
    by (rule order)
  with block t0 p0 p1 show ?thesis by blast
qed

end
